theory Spec2Isabelle
  imports Main
begin

section \<open>The chdir binding of luarocks-build-hooks\<close>

text \<open>
  The repository is one C function, \<open>chdir_lua\<close> of \<^verbatim>\<open>src/chdir.c\<close>, registered
  with a Lua interpreter. It calls \<^verbatim>\<open>getcwd\<close>, \<^verbatim>\<open>chdir\<close> and \<^verbatim>\<open>strerror\<close> of
  the C library and pushes its results on the Lua stack. The embedding keeps these
  layers apart:
  \<^item> the platform the module is compiled and run against (\<^verbatim>\<open>PATH_MAX\<close>, \<^verbatim>\<open>strerror\<close>,
    the directory tree) is a parameter of every definition;
  \<^item> the process state the function reads and writes (working directory, \<^verbatim>\<open>errno\<close>,
    the function's \<^verbatim>\<open>static\<close> buffer) is a record that is passed in and returned;
  \<^item> the Lua stack is a list of values, the top at its end;
  \<^item> the one way the function can leave by a Lua error (\<^verbatim>\<open>luaL_checkstring\<close>) is
    the left summand of its result.
  The loader \<^verbatim>\<open>luaopen_luarocks_build_hooks_chdir\<close> (lines 56 to 60) only hands the
  function to Lua and has no counterpart here.
\<close>

subsection \<open>C strings\<close>

text \<open>
  A \<^verbatim>\<open>char\<close> array is a list of bytes. The C string that starts at its first byte
  ends before the first NUL byte.
\<close>

definition NUL :: char where
  "NUL = CHR 0x00"

definition c_str :: "string \<Rightarrow> string" where
  "c_str bytes = takeWhile (\<lambda>c. c \<noteq> NUL) bytes"

subsection \<open>The platform\<close>

text \<open>
  \<^verbatim>\<open>errno.h\<close>: the two error numbers \<^verbatim>\<open>getcwd\<close> itself decides on, with the values
  they have on Linux, the BSDs and macOS.
\<close>

definition EINVAL :: int where
  "EINVAL = 22"

definition ERANGE :: int where
  "ERANGE = 34"

text \<open>
  The platform, over a type \<open>'d\<close> of directories (what the kernel holds for a
  working directory: an inode, not a name).
  \<^item> \<open>PATH_MAX\<close> is the constant of \<^verbatim>\<open>limits.h\<close>.
  \<^item> \<open>strerror\<close> is the message table of \<^verbatim>\<open>string.h\<close>.
  \<^item> \<open>d_path os d\<close> is the absolute pathname the system reports for directory \<open>d\<close>,
    or the error number with which it refuses (\<^verbatim>\<open>ENOENT\<close> for a directory that has
    been unlinked, \<^verbatim>\<open>EACCES\<close>, \<^verbatim>\<open>ENOMEM\<close>).
  \<^item> \<open>namei os d p\<close> is path resolution: the directory that pathname \<open>p\<close> names
    when resolution starts in \<open>d\<close>, or the error number (\<^verbatim>\<open>ENOENT\<close>, \<^verbatim>\<open>ENOTDIR\<close>,
    \<^verbatim>\<open>EACCES\<close>, \<^verbatim>\<open>ELOOP\<close>, \<^verbatim>\<open>ENAMETOOLONG\<close>, \<^verbatim>\<open>EIO\<close>).
  The directory tree does not change while the function runs: the function is
  sequential and nothing else is modelled as running beside it.
\<close>

record 'd posix =
  PATH_MAX :: nat
  strerror :: "int \<Rightarrow> string"
  d_path :: "'d \<Rightarrow> int + string"
  namei :: "'d \<Rightarrow> string \<Rightarrow> int + 'd"

subsection \<open>The process\<close>

text \<open>
  Every call the function makes into the operating system is appended to \<open>calls\<close>,
  with the arguments it was given. Nothing reads this list: it is there so that
  theorems can say which calls were made.
\<close>

datatype syscall = Getcwd nat | Chdir string

text \<open>
  \<open>pwd\<close> is the working directory of the process, \<open>errno\<close> the variable of
  \<^verbatim>\<open>errno.h\<close>, and \<open>buf\<close> the bytes of \<^verbatim>\<open>static char buf[PATH_MAX]\<close> (line 35), which
  keeps its contents from one call of the function to the next.
\<close>

record 'd process =
  pwd :: 'd
  errno :: int
  buf :: string
  calls :: "syscall list"

text \<open>
  \<^verbatim>\<open>char *getcwd(char *buf, size_t size)\<close> as POSIX specifies it. With a size of 0 it
  fails with \<^verbatim>\<open>EINVAL\<close>; when the pathname and its terminating NUL need more than
  that many bytes it fails with \<^verbatim>\<open>ERANGE\<close>; otherwise it writes the pathname and a NUL
  at the start of the buffer, leaves the bytes behind them as they were, and returns
  the buffer. The boolean is \<open>True\<close> when the returned pointer is not \<^verbatim>\<open>NULL\<close>. A
  failing call sets \<open>errno\<close>; here it leaves the buffer alone (POSIX leaves its
  contents undefined then, and the function does not read it).
\<close>

definition getcwd :: "'d posix \<Rightarrow> nat \<Rightarrow> 'd process \<Rightarrow> bool \<times> 'd process" where
  "getcwd os sz s =
     (let s1 = s\<lparr>calls := calls s @ [Getcwd sz]\<rparr> in
      if sz = 0 then (False, s1\<lparr>errno := EINVAL\<rparr>)
      else
        (case d_path os (pwd s1) of
           Inl e \<Rightarrow> (False, s1\<lparr>errno := e\<rparr>)
         | Inr p \<Rightarrow>
             if sz < length p + 1 then (False, s1\<lparr>errno := ERANGE\<rparr>)
             else (True, s1\<lparr>buf := p @ NUL # drop (length p + 1) (buf s1)\<rparr>)))"

text \<open>
  \<^verbatim>\<open>int chdir(const char *path)\<close>: 0 and the working directory is the one \<open>path\<close>
  names, or -1, \<open>errno\<close> set and the working directory as it was.
\<close>

definition chdir :: "'d posix \<Rightarrow> string \<Rightarrow> 'd process \<Rightarrow> int \<times> 'd process" where
  "chdir os path s =
     (let s1 = s\<lparr>calls := calls s @ [Chdir path]\<rparr> in
      case namei os (pwd s1) path of
        Inl e \<Rightarrow> (- 1, s1\<lparr>errno := e\<rparr>)
      | Inr d \<Rightarrow> (0, s1\<lparr>pwd := d\<rparr>))"

subsection \<open>The Lua side\<close>

text \<open>
  The Lua values the function meets: the three kinds it pushes, which are also
  enough for the arguments it accepts and rejects. A Lua string is a byte string
  with its own length and may hold NUL bytes.
\<close>

datatype lua_value = LNil | LInteger int | LString string

text \<open>The error \<^verbatim>\<open>luaL_checkstring\<close> raises: the number of the bad argument.\<close>

datatype lua_error = BadArgument nat

definition lua_pushnil :: "lua_value list \<Rightarrow> lua_value list" where
  "lua_pushnil L = L @ [LNil]"

text \<open>\<^verbatim>\<open>lua_pushstring\<close> copies the C string it is given; the argument is that string.\<close>

definition lua_pushstring :: "lua_value list \<Rightarrow> string \<Rightarrow> lua_value list" where
  "lua_pushstring L str = L @ [LString str]"

definition lua_pushinteger :: "lua_value list \<Rightarrow> int \<Rightarrow> lua_value list" where
  "lua_pushinteger L n = L @ [LInteger n]"

text \<open>
  Lua renders an integer in decimal (\<^verbatim>\<open>"%d"\<close>) when a string is asked of it.
\<close>

fun digits :: "nat \<Rightarrow> string" where
  "digits n =
     (if n < 10 then [char_of (48 + n)]
      else digits (n div 10) @ [char_of (48 + n mod 10)])"

definition lua_integer_fmt :: "int \<Rightarrow> string" where
  "lua_integer_fmt n = (if n < 0 then CHR ''-'' # digits (nat (- n)) else digits (nat n))"

text \<open>
  \<^verbatim>\<open>luaL_checkstring(L, arg)\<close>: argument \<open>arg\<close> (counted from 1) must be a string or a
  number; a number is replaced on the stack by its string form. The result is a
  \<^verbatim>\<open>const char *\<close> to the bytes of the Lua string, which Lua terminates with a NUL;
  the length of the Lua string is not returned. What C code reads through this
  pointer is the C string at it, so that is the result here. Any other argument,
  or none, raises a Lua error.
\<close>

definition luaL_checkstring :: "lua_value list \<Rightarrow> nat \<Rightarrow> lua_error + string \<times> lua_value list" where
  "luaL_checkstring L arg =
     (if arg = 0 \<or> length L < arg then Inl (BadArgument arg)
      else
        (case L ! (arg - 1) of
           LString bytes \<Rightarrow> Inr (c_str bytes, L)
         | LInteger n \<Rightarrow> Inr (lua_integer_fmt n, L[arg - 1 := LString (lua_integer_fmt n)])
         | LNil \<Rightarrow> Inl (BadArgument arg)))"

subsection \<open>The function\<close>

text \<open>
  \<open>chdir_lua\<close>, lines 31 to 54, statement by statement. The result is the process
  state, the Lua stack and the number of results the function returns to Lua.
  The three pushes of an error branch read \<open>errno\<close> twice, as the source does;
  the Lua API calls between the two reads are taken not to assign \<open>errno\<close>.
\<close>

definition chdir_lua ::
  "'d posix \<Rightarrow> 'd process \<times> lua_value list \<Rightarrow> lua_error + 'd process \<times> lua_value list \<times> nat" where
  "chdir_lua os sL =
     (case sL of (s, L) \<Rightarrow>
      (case luaL_checkstring L 1 of
         Inl err \<Rightarrow> Inl err
       | Inr (pathname, L0) \<Rightarrow>
           (case getcwd os (PATH_MAX os) s of
              (cwd, s1) \<Rightarrow>
                if \<not> cwd then
                  (let L1 = lua_pushnil L0;
                       L2 = lua_pushstring L1 (strerror os (errno s1));
                       L3 = lua_pushinteger L2 (errno s1)
                   in Inr (s1, L3, 3))
                else
                  (case chdir os pathname s1 of
                     (rc, s2) \<Rightarrow>
                       if rc = 0 then Inr (s2, lua_pushstring L0 (c_str (buf s2)), 1)
                       else
                         (let L1 = lua_pushnil L0;
                              L2 = lua_pushstring L1 (strerror os (errno s2));
                              L3 = lua_pushinteger L2 (errno s2)
                          in Inr (s2, L3, 3))))))"

text \<open>
  A call from Lua with the one argument \<open>targetPath\<close>: the stack of the call holds
  the argument, and the caller receives the topmost \<open>n\<close> values of the stack the
  function leaves, \<open>n\<close> being the number it returned.
\<close>

definition changeDirectory ::
  "'d posix \<Rightarrow> 'd process \<Rightarrow> string \<Rightarrow> lua_error + 'd process \<times> lua_value list" where
  "changeDirectory os s targetPath =
     (case chdir_lua os (s, [LString targetPath]) of
        Inl err \<Rightarrow> Inl err
      | Inr (s', L, n) \<Rightarrow> Inr (s', drop (length L - n) L))"

text \<open>The two shapes of a result list: one string, or nil, a string and an integer.\<close>

fun success_form :: "lua_value list \<Rightarrow> bool" where
  "success_form [LString previous] = True"
| "success_form _ = False"

fun failure_form :: "lua_value list \<Rightarrow> bool" where
  "failure_form [LNil, LString message, LInteger code] = True"
| "failure_form _ = False"

text \<open>
  What a caller can observe of a call: the Lua error or the values returned, and
  the working directory the process is left in.
\<close>

definition visible ::
  "lua_error + 'd process \<times> lua_value list \<Rightarrow> lua_error + 'd \<times> lua_value list" where
  "visible outcome = map_sum id (\<lambda>(s', results). (pwd s', results)) outcome"

text \<open>
  A process in directory \<open>d\<close> in which the function has not run yet: the buffer
  still holds its initialiser \<^verbatim>\<open>{0}\<close>, \<open>errno\<close> is 0 and no call has been made.
\<close>

definition fresh :: "'d posix \<Rightarrow> 'd \<Rightarrow> 'd process" where
  "fresh os d = \<lparr>pwd = d, errno = 0, buf = replicate (PATH_MAX os) NUL, calls = []\<rparr>"

subsection \<open>The two reads of errno\<close>

text \<open>
  Each error branch of the source reads \<open>errno\<close> twice: once as the argument of
  \<^verbatim>\<open>strerror\<close> (lines 41 and 51) and once as the argument of \<^verbatim>\<open>lua_pushinteger\<close>
  (lines 42 and 52). Between the two reads runs \<^verbatim>\<open>lua_pushstring\<close>, which allocates
  the new Lua string and may let the collector take a step; a step may run
  finalizers, and a finalizer is arbitrary code that may assign \<open>errno\<close>. (POSIX
  forbids a successful \<^verbatim>\<open>strerror\<close> to change \<open>errno\<close>, and \<^verbatim>\<open>lua_pushnil\<close> allocates
  nothing.) Here the function is written once more with that effect as a parameter:
  \<open>gc e\<close> is the value of \<open>errno\<close> when \<^verbatim>\<open>lua_pushstring\<close> returns, \<open>e\<close> being its
  value at the call. With \<open>gc\<close> the identity this is \<open>chdir_lua\<close>.
\<close>

definition lua_pushstring_gc ::
  "(int \<Rightarrow> int) \<Rightarrow> string \<Rightarrow> 'd process \<times> lua_value list \<Rightarrow> 'd process \<times> lua_value list" where
  "lua_pushstring_gc gc str sL =
     (case sL of (s, L) \<Rightarrow> (s\<lparr>errno := gc (errno s)\<rparr>, lua_pushstring L str))"

definition chdir_lua_gc ::
  "(int \<Rightarrow> int) \<Rightarrow> 'd posix \<Rightarrow> 'd process \<times> lua_value list \<Rightarrow>
   lua_error + 'd process \<times> lua_value list \<times> nat" where
  "chdir_lua_gc gc os sL =
     (case sL of (s, L) \<Rightarrow>
      (case luaL_checkstring L 1 of
         Inl err \<Rightarrow> Inl err
       | Inr (pathname, L0) \<Rightarrow>
           (case getcwd os (PATH_MAX os) s of
              (cwd, s1) \<Rightarrow>
                if \<not> cwd then
                  (let L1 = lua_pushnil L0 in
                   case lua_pushstring_gc gc (strerror os (errno s1)) (s1, L1) of
                     (s2, L2) \<Rightarrow> Inr (s2, lua_pushinteger L2 (errno s2), 3))
                else
                  (case chdir os pathname s1 of
                     (rc, s2) \<Rightarrow>
                       if rc = 0 then
                         (case lua_pushstring_gc gc (c_str (buf s2)) (s2, L0) of
                            (s3, L1) \<Rightarrow> Inr (s3, L1, 1))
                       else
                         (let L1 = lua_pushnil L0 in
                          case lua_pushstring_gc gc (strerror os (errno s2)) (s2, L1) of
                            (s3, L2) \<Rightarrow> Inr (s3, lua_pushinteger L2 (errno s3), 3))))))"

definition changeDirectory_gc ::
  "(int \<Rightarrow> int) \<Rightarrow> 'd posix \<Rightarrow> 'd process \<Rightarrow> string \<Rightarrow>
   lua_error + 'd process \<times> lua_value list" where
  "changeDirectory_gc gc os s targetPath =
     (case chdir_lua_gc gc os (s, [LString targetPath]) of
        Inl err \<Rightarrow> Inl err
      | Inr (s', L, n) \<Rightarrow> Inr (s', drop (length L - n) L))"

subsection \<open>A sample platform\<close>

text \<open>
  A small platform to run the function on, with Linux's numbers: \<^verbatim>\<open>PATH_MAX\<close> is
  4096, \<^verbatim>\<open>ENOENT\<close> is 2 and \<^verbatim>\<open>ENAMETOOLONG\<close> is 36. Its directories are the root,
  \<^verbatim>\<open>/tmp\<close>, a chain of fifteen directories below the root whose names are 255 bytes
  each, a sixteenth below them, whose pathname has 4096 bytes, and a directory that
  has been removed while a process was in it. A relative name can reach the
  sixteenth directory from the fifteenth; its absolute pathname is too long to be
  passed to any system call.
\<close>

datatype dir = Root | Tmp | Deep15 | Deep16 | Unlinked

definition name255 :: string where
  "name255 = replicate 255 CHR ''d''"

definition deep15_path :: string where
  "deep15_path = concat (replicate 15 (CHR ''/'' # name255))"

definition deep16_path :: string where
  "deep16_path = deep15_path @ CHR ''/'' # name255"

definition ex_strerror :: "int \<Rightarrow> string" where
  "ex_strerror e =
     (if e = 2 then ''No such file or directory''
      else if e = 13 then ''Permission denied''
      else if e = 22 then ''Invalid argument''
      else if e = 34 then ''Numerical result out of range''
      else if e = 36 then ''File name too long''
      else ''Unknown error'')"

fun ex_d_path :: "dir \<Rightarrow> int + string" where
  "ex_d_path Root = Inr ''/''"
| "ex_d_path Tmp = Inr ''/tmp''"
| "ex_d_path Deep15 = Inr deep15_path"
| "ex_d_path Deep16 = Inr deep16_path"
| "ex_d_path Unlinked = Inl 2"

definition ex_namei :: "dir \<Rightarrow> string \<Rightarrow> int + dir" where
  "ex_namei d p =
     (if p = [] then Inl 2
      else if 4096 \<le> length p then Inl 36
      else if p = ''/'' then Inr Root
      else if p = ''/tmp'' then Inr Tmp
      else if p = deep15_path then Inr Deep15
      else if d = Deep15 \<and> p = name255 then Inr Deep16
      else Inl 2)"

definition linux :: "dir posix" where
  "linux = \<lparr>PATH_MAX = 4096, strerror = ex_strerror, d_path = ex_d_path, namei = ex_namei\<rparr>"

text \<open>A process of the sample platform that starts in directory \<open>d\<close>.\<close>

definition boot :: "dir \<Rightarrow> dir process" where
  "boot d = \<lparr>pwd = d, errno = 0, buf = replicate 4096 NUL, calls = []\<rparr>"

text \<open>
  A Lua state in which the collector, at its next step, runs a finalizer that
  tries to open a file it may not read: the finalizer leaves \<^verbatim>\<open>EACCES\<close>, 13, in
  \<open>errno\<close>.
\<close>

definition finalizer_EACCES :: "int \<Rightarrow> int" where
  "finalizer_EACCES e = 13"

section \<open>Properties\<close>

subsection \<open>C strings and the two system calls\<close>

lemma c_str_terminated: "c_str (p @ NUL # rest) = c_str p"
  by (induction p) (simp_all add: c_str_def)

lemma c_str_id: "NUL \<notin> set p \<Longrightarrow> c_str p = p"
  by (auto simp: c_str_def takeWhile_eq_all_conv)

lemma length_c_str: "length (c_str p) \<le> length p"
  by (simp add: c_str_def length_takeWhile_le)

lemma getcwd_success:
  assumes "d_path os (pwd s) = Inr c" and "length c < sz"
  shows "getcwd os sz s =
         (True, s\<lparr>calls := calls s @ [Getcwd sz],
                  buf := c @ NUL # drop (length c + 1) (buf s)\<rparr>)"
  using assms by (simp add: getcwd_def)

lemma getcwd_failure:
  assumes "getcwd os sz s = (False, s1)"
  shows "s1 = s\<lparr>calls := calls s @ [Getcwd sz], errno := errno s1\<rparr>"
  using assms by (auto simp: getcwd_def Let_def split: if_splits sum.splits)

lemma getcwd_True:
  assumes "getcwd os sz s = (True, s1)"
  obtains c where "d_path os (pwd s) = Inr c" and "length c < sz"
    and "s1 = s\<lparr>calls := calls s @ [Getcwd sz],
                  buf := c @ NUL # drop (length c + 1) (buf s)\<rparr>"
  using assms by (auto simp: getcwd_def Let_def split: if_splits sum.splits)

lemma getcwd_too_long:
  assumes "d_path os (pwd s) = Inr c" and "sz \<le> length c"
  shows "getcwd os sz s =
         (False, s\<lparr>calls := calls s @ [Getcwd sz],
                   errno := (if sz = 0 then EINVAL else ERANGE)\<rparr>)"
  using assms by (simp add: getcwd_def)

lemma chdir_success:
  assumes "namei os (pwd s) path = Inr d"
  shows "chdir os path s = (0, s\<lparr>calls := calls s @ [Chdir path], pwd := d\<rparr>)"
  using assms by (simp add: chdir_def)

lemma chdir_failure:
  assumes "namei os (pwd s) path = Inl e"
  shows "chdir os path s = (- 1, s\<lparr>calls := calls s @ [Chdir path], errno := e\<rparr>)"
  using assms by (simp add: chdir_def)

subsection \<open>What one call computes\<close>

text \<open>
  An argument that is missing or nil makes \<^verbatim>\<open>luaL_checkstring\<close> raise before anything
  else happens; a number is passed on as its decimal string.
\<close>

lemma chdir_lua_bad_argument:
  "chdir_lua os (s, []) = Inl (BadArgument 1)"
  "chdir_lua os (s, LNil # rest) = Inl (BadArgument 1)"
  by (simp_all add: chdir_lua_def luaL_checkstring_def)

lemma lua_integer_fmt_2026: "lua_integer_fmt 2026 = ''2026''"
  by code_simp

lemma lua_integer_fmt_negative: "lua_integer_fmt (- 13) = ''-13''"
  by code_simp

lemma chdir_lua_number_argument:
  "chdir_lua os (s, [LInteger 2026]) = chdir_lua os (s, [LString ''2026''])"
  by (simp add: chdir_lua_def luaL_checkstring_def lua_integer_fmt_2026 c_str_def NUL_def)

text \<open>
  The three ways through the function for a string argument: the query fails, the
  change of directory fails, or both succeed.
\<close>

lemma changeDirectory_query_fails:
  assumes "getcwd os (PATH_MAX os) s = (False, s1)"
  shows "changeDirectory os s p =
         Inr (s1, [LNil, LString (strerror os (errno s1)), LInteger (errno s1)])"
  using assms
  by (simp add: changeDirectory_def chdir_lua_def luaL_checkstring_def lua_pushnil_def
      lua_pushstring_def lua_pushinteger_def)

lemma changeDirectory_transition_fails:
  assumes "getcwd os (PATH_MAX os) s = (True, s1)"
    and "chdir os (c_str p) s1 = (rc, s2)" and "rc \<noteq> 0"
  shows "changeDirectory os s p =
         Inr (s2, [LNil, LString (strerror os (errno s2)), LInteger (errno s2)])"
  using assms
  by (simp add: changeDirectory_def chdir_lua_def luaL_checkstring_def lua_pushnil_def
      lua_pushstring_def lua_pushinteger_def)

lemma changeDirectory_succeeds:
  assumes "getcwd os (PATH_MAX os) s = (True, s1)"
    and "chdir os (c_str p) s1 = (0, s2)"
  shows "changeDirectory os s p = Inr (s2, [LString (c_str (buf s2))])"
  using assms
  by (simp add: changeDirectory_def chdir_lua_def luaL_checkstring_def lua_pushstring_def)

text \<open>
  The same in terms of the platform: what the directory tree answers.
\<close>

lemma changeDirectory_ok:
  assumes "d_path os (pwd s) = Inr c" and "length c < PATH_MAX os"
    and "namei os (pwd s) (c_str p) = Inr d"
  shows "changeDirectory os s p =
         Inr (s\<lparr>calls := calls s @ [Getcwd (PATH_MAX os), Chdir (c_str p)],
                 buf := c @ NUL # drop (length c + 1) (buf s), pwd := d\<rparr>,
              [LString (c_str c)])"
proof -
  let ?s1 = "s\<lparr>calls := calls s @ [Getcwd (PATH_MAX os)],
                buf := c @ NUL # drop (length c + 1) (buf s)\<rparr>"
  have g: "getcwd os (PATH_MAX os) s = (True, ?s1)"
    using assms(1,2) by (rule getcwd_success)
  have "namei os (pwd ?s1) (c_str p) = Inr d"
    using assms(3) by simp
  then have "chdir os (c_str p) ?s1 =
             (0, ?s1\<lparr>calls := calls ?s1 @ [Chdir (c_str p)], pwd := d\<rparr>)"
    by (rule chdir_success)
  with g show ?thesis
    by (simp add: changeDirectory_succeeds c_str_terminated)
qed

lemma changeDirectory_err:
  assumes "d_path os (pwd s) = Inr c" and "length c < PATH_MAX os"
    and "namei os (pwd s) (c_str p) = Inl e"
  shows "changeDirectory os s p =
         Inr (s\<lparr>calls := calls s @ [Getcwd (PATH_MAX os), Chdir (c_str p)],
                 buf := c @ NUL # drop (length c + 1) (buf s), errno := e\<rparr>,
              [LNil, LString (strerror os e), LInteger e])"
proof -
  let ?s1 = "s\<lparr>calls := calls s @ [Getcwd (PATH_MAX os)],
                buf := c @ NUL # drop (length c + 1) (buf s)\<rparr>"
  have g: "getcwd os (PATH_MAX os) s = (True, ?s1)"
    using assms(1,2) by (rule getcwd_success)
  have "namei os (pwd ?s1) (c_str p) = Inl e"
    using assms(3) by simp
  then have "chdir os (c_str p) ?s1 =
             (- 1, ?s1\<lparr>calls := calls ?s1 @ [Chdir (c_str p)], errno := e\<rparr>)"
    by (rule chdir_failure)
  with g show ?thesis
    by (simp add: changeDirectory_transition_fails [where rc = "- 1"])
qed

text \<open>
  What the caller observes is a function of the platform, the working directory
  and the argument, and of nothing else in the process state.
\<close>

lemma visible_changeDirectory:
  "visible (changeDirectory os s p) =
     (if PATH_MAX os = 0
      then Inr (pwd s, [LNil, LString (strerror os EINVAL), LInteger EINVAL])
      else
        (case d_path os (pwd s) of
           Inl e \<Rightarrow> Inr (pwd s, [LNil, LString (strerror os e), LInteger e])
         | Inr c \<Rightarrow>
             if PATH_MAX os \<le> length c
             then Inr (pwd s, [LNil, LString (strerror os ERANGE), LInteger ERANGE])
             else
               (case namei os (pwd s) (c_str p) of
                  Inl e \<Rightarrow> Inr (pwd s, [LNil, LString (strerror os e), LInteger e])
                | Inr d \<Rightarrow> Inr (d, [LString (c_str c)]))))"
proof (cases "PATH_MAX os = 0")
  case True
  then have "getcwd os (PATH_MAX os) s =
             (False, s\<lparr>calls := calls s @ [Getcwd 0], errno := EINVAL\<rparr>)"
    by (simp add: getcwd_def)
  with True show ?thesis
    by (simp add: changeDirectory_query_fails visible_def)
next
  case pos: False
  show ?thesis
  proof (cases "d_path os (pwd s)")
    case (Inl e)
    then have "getcwd os (PATH_MAX os) s =
               (False, s\<lparr>calls := calls s @ [Getcwd (PATH_MAX os)], errno := e\<rparr>)"
      using pos by (simp add: getcwd_def)
    with pos Inl show ?thesis
      by (simp add: changeDirectory_query_fails visible_def)
  next
    case (Inr c)
    show ?thesis
    proof (cases "PATH_MAX os \<le> length c")
      case True
      with Inr pos show ?thesis
        by (simp add: getcwd_too_long changeDirectory_query_fails visible_def)
    next
      case False
      then have fits: "length c < PATH_MAX os" by simp
      show ?thesis
      proof (cases "namei os (pwd s) (c_str p)")
        case (Inl e)
        with Inr fits pos show ?thesis
          by (simp add: changeDirectory_err visible_def)
      next
        case d: (Inr d)
        with Inr fits pos show ?thesis
          by (simp add: changeDirectory_ok visible_def)
      qed
    qed
  qed
qed

lemma pwd_fresh: "pwd (fresh os d) = d"
  by (simp add: fresh_def)

text \<open>
  The buffer keeps its size: \<^verbatim>\<open>getcwd\<close> writes inside the \<^verbatim>\<open>PATH_MAX\<close> bytes it was
  given.
\<close>

lemma buf_length_kept:
  assumes "changeDirectory os s p = Inr (s', r)" and "length (buf s) = PATH_MAX os"
  shows "length (buf s') = PATH_MAX os"
proof -
  obtain cwd s1 where g: "getcwd os (PATH_MAX os) s = (cwd, s1)"
    by (cases "getcwd os (PATH_MAX os) s")
  show ?thesis
  proof (cases cwd)
    case False
    with g have f: "getcwd os (PATH_MAX os) s = (False, s1)" by simp
    then have "s1 = s\<lparr>calls := calls s @ [Getcwd (PATH_MAX os)], errno := errno s1\<rparr>"
      by (rule getcwd_failure)
    then have "buf s1 = buf s"
      by (cases s1) (cases s, simp)
    with assms f show ?thesis
      by (simp add: changeDirectory_query_fails)
  next
    case True
    with g obtain c where c: "d_path os (pwd s) = Inr c" "length c < PATH_MAX os"
      by (auto elim: getcwd_True)
    show ?thesis
    proof (cases "namei os (pwd s) (c_str p)")
      case (Inl e)
      with c assms show ?thesis by (auto simp: changeDirectory_err)
    next
      case (Inr d)
      with c assms show ?thesis by (auto simp: changeDirectory_ok)
    qed
  qed
qed

subsection \<open>The two reads of errno\<close>

text \<open>
  When \<^verbatim>\<open>lua_pushstring\<close> leaves \<open>errno\<close> alone, the function with the two reads
  apart is the function of the sections above.
\<close>

lemma lua_pushstring_gc_id:
  "lua_pushstring_gc (\<lambda>e. e) str (s, L) = (s, lua_pushstring L str)"
  by (simp add: lua_pushstring_gc_def)

lemma chdir_lua_gc_id: "chdir_lua_gc (\<lambda>e. e) os sL = chdir_lua os sL"
  by (cases sL)
    (simp add: chdir_lua_gc_def chdir_lua_def lua_pushstring_gc_id Let_def
      split: sum.splits prod.splits)

lemma changeDirectory_gc_id: "changeDirectory_gc (\<lambda>e. e) os s p = changeDirectory os s p"
  by (simp add: changeDirectory_gc_def changeDirectory_def chdir_lua_gc_id)

text \<open>
  In general the message comes from the first read and the code from the second.
\<close>

lemma changeDirectory_gc_query_fails:
  assumes "getcwd os (PATH_MAX os) s = (False, s1)"
  shows "changeDirectory_gc gc os s p =
         Inr (s1\<lparr>errno := gc (errno s1)\<rparr>,
              [LNil, LString (strerror os (errno s1)), LInteger (gc (errno s1))])"
  using assms
  by (simp add: changeDirectory_gc_def chdir_lua_gc_def luaL_checkstring_def lua_pushnil_def
      lua_pushstring_gc_def lua_pushstring_def lua_pushinteger_def)

lemma changeDirectory_gc_transition_fails:
  assumes "getcwd os (PATH_MAX os) s = (True, s1)"
    and "chdir os (c_str p) s1 = (rc, s2)" and "rc \<noteq> 0"
  shows "changeDirectory_gc gc os s p =
         Inr (s2\<lparr>errno := gc (errno s2)\<rparr>,
              [LNil, LString (strerror os (errno s2)), LInteger (gc (errno s2))])"
  using assms
  by (simp add: changeDirectory_gc_def chdir_lua_gc_def luaL_checkstring_def lua_pushnil_def
      lua_pushstring_gc_def lua_pushstring_def lua_pushinteger_def)

lemma changeDirectory_gc_failure:
  assumes "changeDirectory_gc gc os s p = Inr (s', [LNil, LString message, LInteger code])"
  shows "\<exists>e. message = strerror os e \<and> code = gc e"
proof -
  obtain cwd s1 where g: "getcwd os (PATH_MAX os) s = (cwd, s1)"
    by (cases "getcwd os (PATH_MAX os) s")
  obtain rc s2 where c: "chdir os (c_str p) s1 = (rc, s2)"
    by (cases "chdir os (c_str p) s1")
  show ?thesis
  proof (cases cwd)
    case False
    with g have f: "getcwd os (PATH_MAX os) s = (False, s1)" by simp
    from assms show ?thesis
      unfolding changeDirectory_gc_query_fails [OF f] by auto
  next
    case True
    with g have t: "getcwd os (PATH_MAX os) s = (True, s1)" by simp
    show ?thesis
    proof (cases "rc = 0")
      case True
      with assms t c show ?thesis
        by (simp add: changeDirectory_gc_def chdir_lua_gc_def luaL_checkstring_def
            lua_pushstring_gc_def lua_pushstring_def)
    next
      case False
      from assms show ?thesis
        unfolding changeDirectory_gc_transition_fails [OF t c False] by auto
    qed
  qed
qed

text \<open>
  So message and code agree whenever \<^verbatim>\<open>lua_pushstring\<close> returns with \<open>errno\<close> as it
  found it.
\<close>

lemma changeDirectory_gc_consistent_if_errno_kept:
  assumes "changeDirectory_gc gc os s p = Inr (s', [LNil, LString message, LInteger code])"
    and "\<And>e. gc e = e"
  shows "message = strerror os code"
  using changeDirectory_gc_failure [OF assms(1)] assms(2) by auto

subsection \<open>The sample platform\<close>

lemma linux_simps:
  "PATH_MAX linux = 4096" "strerror linux = ex_strerror" "d_path linux = ex_d_path"
  "namei linux = ex_namei"
  by (simp_all add: linux_def)

lemma boot_simps:
  "pwd (boot d) = d" "errno (boot d) = 0" "buf (boot d) = replicate 4096 NUL"
  "calls (boot d) = []"
  by (simp_all add: boot_def)

lemma length_name255: "length name255 = 255"
  by (simp add: name255_def)

lemma length_deep15: "length deep15_path = 3840"
  by (simp add: deep15_path_def length_concat sum_list_replicate length_name255)

lemma length_deep16: "length deep16_path = 4096"
  by (simp add: deep16_path_def length_deep15 length_name255)

lemma NUL_name255: "NUL \<notin> set name255"
  by (simp add: name255_def NUL_def)

lemma NUL_deep15: "NUL \<notin> set deep15_path"
  by (simp add: deep15_path_def NUL_def name255_def)

lemma deep15_path_neq: "length p \<noteq> 3840 \<Longrightarrow> (p = deep15_path) = False"
  using length_deep15 by auto

lemma deep15_path_neq': "length p \<noteq> 3840 \<Longrightarrow> (deep15_path = p) = False"
  using length_deep15 by auto

lemma name255_neq: "length p \<noteq> 255 \<Longrightarrow> (p = name255) = False"
  using length_name255 by auto

lemma name255_neq': "length p \<noteq> 255 \<Longrightarrow> (name255 = p) = False"
  using length_name255 by auto

subsection \<open>The claims\<close>

text \<open>
  C1, as the specification states it, fails where the working directory cannot be
  queried. On the sample platform a process stands in the sixteenth directory,
  whose pathname \<open>C\<close> has 4096 bytes and so does not fit a buffer of \<^verbatim>\<open>PATH_MAX\<close>
  bytes together with its NUL; \<^verbatim>\<open>/tmp\<close> exists and is accessible. The call returns
  the failure triple for \<^verbatim>\<open>ERANGE\<close>, makes no attempt to change directory, and the
  process stays where it was.
\<close>

theorem C1_counterexample:
  "d_path linux (pwd (boot Deep16)) = Inr deep16_path \<and>
   namei linux (pwd (boot Deep16)) ''/tmp'' = Inr Tmp \<and>
   changeDirectory linux (boot Deep16) ''/tmp'' =
     Inr (\<lparr>pwd = Deep16, errno = 34, buf = replicate 4096 NUL, calls = [Getcwd 4096]\<rparr>,
          [LNil, LString ''Numerical result out of range'', LInteger 34])"
  by (simp add: changeDirectory_def chdir_lua_def luaL_checkstring_def lua_pushstring_def
      lua_pushnil_def lua_pushinteger_def getcwd_def c_str_def linux_def boot_def
      ex_namei_def length_deep16 ERANGE_def ex_strerror_def)

text \<open>
  C1, amended. Let the working directory have pathname \<open>C\<close>, let the system be
  able to report it and let it be shorter than \<^verbatim>\<open>PATH_MAX\<close>, so that the query of
  line 36 succeeds. Then for every pathname \<open>D\<close> that names an accessible directory
  \<open>d\<close>, \<open>changeDirectory D\<close> returns the success form carrying exactly \<open>C\<close>, and
  afterwards the working directory is \<open>d\<close>. Pathnames are C strings: they hold no
  NUL byte.
\<close>

theorem C1_success_path:
  assumes "d_path os (pwd s) = Inr C" and "length C < PATH_MAX os" and "NUL \<notin> set C"
    and "NUL \<notin> set D" and "namei os (pwd s) D = Inr d"
  shows "\<exists>s'. changeDirectory os s D = Inr (s', [LString C]) \<and> pwd s' = d"
  using assms by (simp add: changeDirectory_ok c_str_id)

text \<open>
  An instance of C1: from the root to \<^verbatim>\<open>/tmp\<close> on the sample platform.
\<close>

theorem C1_witness:
  "d_path linux (pwd (boot Root)) = Inr ''/'' \<and> length ''/'' < PATH_MAX linux \<and>
   NUL \<notin> set ''/'' \<and> NUL \<notin> set ''/tmp'' \<and> namei linux (pwd (boot Root)) ''/tmp'' = Inr Tmp \<and>
   (\<exists>s'. changeDirectory linux (boot Root) ''/tmp'' = Inr (s', [LString ''/'']) \<and> pwd s' = Tmp)"
  using C1_success_path [of linux "boot Root" "''/''" "''/tmp''" Tmp]
  by (simp add: linux_def boot_def ex_namei_def NUL_def)






text \<open>
  C4. Every call of \<open>changeDirectory\<close> returns to its caller, and what it returns
  has exactly one of the two shapes: the single previous-path string, or the
  triple of nil, message and code. There is no third shape and no mixture.
\<close>

theorem C4_exactly_one_form:
  "\<exists>s' r. changeDirectory os s p = Inr (s', r) \<and> success_form r \<noteq> failure_form r"
proof -
  obtain cwd s1 where g: "getcwd os (PATH_MAX os) s = (cwd, s1)"
    by (cases "getcwd os (PATH_MAX os) s")
  obtain rc s2 where c: "chdir os (c_str p) s1 = (rc, s2)"
    by (cases "chdir os (c_str p) s1")
  show ?thesis
  proof (cases cwd)
    case False
    with g show ?thesis by (simp add: changeDirectory_query_fails)
  next
    case True
    show ?thesis
    proof (cases "rc = 0")
      case True
      with g c \<open>cwd\<close> show ?thesis by (simp add: changeDirectory_succeeds)
    next
      case False
      with g c \<open>cwd\<close> show ?thesis by (simp add: changeDirectory_transition_fails)
    qed
  qed
qed

text \<open>
  C5, as the specification states it, fails where a query fails on the way. On the
  sample platform \<open>A\<close> is the fifteenth directory of the chain, given by its
  absolute pathname, and \<open>B\<close> is the sixteenth, given by its name relative to \<open>A\<close>.
  Both are accessible and the first two calls succeed, the second returning the
  pathname of \<open>A\<close>. The third call, handed that pathname, fails with \<^verbatim>\<open>ERANGE\<close>
  because the pathname of \<open>B\<close>, where the process now stands, does not fit the
  buffer; the process stays in \<open>B\<close>.
\<close>

theorem C5_counterexample:
  "namei linux Root deep15_path = Inr Deep15 \<and>
   namei linux Deep15 name255 = Inr Deep16 \<and>
   changeDirectory linux (boot Root) deep15_path =
     Inr (\<lparr>pwd = Deep15, errno = 0, buf = ''/'' @ NUL # replicate 4094 NUL,
            calls = [Getcwd 4096, Chdir deep15_path]\<rparr>,
          [LString ''/'']) \<and>
   changeDirectory linux
       \<lparr>pwd = Deep15, errno = 0, buf = ''/'' @ NUL # replicate 4094 NUL,
         calls = [Getcwd 4096, Chdir deep15_path]\<rparr> name255 =
     Inr (\<lparr>pwd = Deep16, errno = 0, buf = deep15_path @ NUL # replicate 255 NUL,
            calls = [Getcwd 4096, Chdir deep15_path, Getcwd 4096, Chdir name255]\<rparr>,
          [LString deep15_path]) \<and>
   changeDirectory linux
       \<lparr>pwd = Deep16, errno = 0, buf = deep15_path @ NUL # replicate 255 NUL,
         calls = [Getcwd 4096, Chdir deep15_path, Getcwd 4096, Chdir name255]\<rparr>
       deep15_path =
     Inr (\<lparr>pwd = Deep16, errno = 34, buf = deep15_path @ NUL # replicate 255 NUL,
            calls = [Getcwd 4096, Chdir deep15_path, Getcwd 4096, Chdir name255,
                     Getcwd 4096]\<rparr>,
          [LNil, LString ''Numerical result out of range'', LInteger 34]) \<and>
   Deep16 \<noteq> Deep15"
proof -
  have A: "namei linux Root deep15_path = Inr Deep15"
    by (simp add: linux_simps ex_namei_def deep15_path_neq' length_deep15)
  have B: "namei linux Deep15 name255 = Inr Deep16"
    by (simp add: linux_simps ex_namei_def name255_neq' deep15_path_neq length_name255)
  have 1: "changeDirectory linux (boot Root) deep15_path =
     Inr (\<lparr>pwd = Deep15, errno = 0, buf = ''/'' @ NUL # replicate 4094 NUL,
            calls = [Getcwd 4096, Chdir deep15_path]\<rparr>,
          [LString ''/''])"
    using changeDirectory_ok [of linux "boot Root" "''/''" deep15_path Deep15] A
    by (simp add: linux_simps boot_def c_str_id NUL_deep15) (simp add: c_str_def NUL_def)
  have 2: "changeDirectory linux
       \<lparr>pwd = Deep15, errno = 0, buf = ''/'' @ NUL # replicate 4094 NUL,
         calls = [Getcwd 4096, Chdir deep15_path]\<rparr> name255 =
     Inr (\<lparr>pwd = Deep16, errno = 0, buf = deep15_path @ NUL # replicate 255 NUL,
            calls = [Getcwd 4096, Chdir deep15_path, Getcwd 4096, Chdir name255]\<rparr>,
          [LString deep15_path])"
    using changeDirectory_ok [of linux _ deep15_path name255 Deep16] B
    by (simp add: linux_simps c_str_id NUL_deep15 NUL_name255 length_deep15)
  have 3: "changeDirectory linux
       \<lparr>pwd = Deep16, errno = 0, buf = deep15_path @ NUL # replicate 255 NUL,
         calls = [Getcwd 4096, Chdir deep15_path, Getcwd 4096, Chdir name255]\<rparr>
       deep15_path =
     Inr (\<lparr>pwd = Deep16, errno = 34, buf = deep15_path @ NUL # replicate 255 NUL,
            calls = [Getcwd 4096, Chdir deep15_path, Getcwd 4096, Chdir name255,
                     Getcwd 4096]\<rparr>,
          [LNil, LString ''Numerical result out of range'', LInteger 34])"
    by (simp add: changeDirectory_query_fails getcwd_too_long [where c = deep16_path]
        linux_simps length_deep16 ERANGE_def ex_strerror_def)
  from A B 1 2 3 show ?thesis by simp
qed

text \<open>
  C5, amended. Let the query of the working directory succeed at each of the
  three calls: the starting directory, \<open>A\<close> and \<open>B\<close> have pathnames that the system
  reports and that are shorter than \<^verbatim>\<open>PATH_MAX\<close>. Let \<open>A\<close> be accessible from the
  starting directory and \<open>B\<close> from \<open>A\<close>, and let the pathname reported for \<open>A\<close>
  lead back to \<open>A\<close> from \<open>B\<close>. Then \<open>changeDirectory A\<close>, \<open>changeDirectory B\<close> and
  \<open>changeDirectory r\<close>, with \<open>r\<close> the value the second call returned, all succeed,
  \<open>r\<close> is the pathname of \<open>A\<close>, and the process ends in \<open>A\<close>.
\<close>

theorem C5_round_trip:
  assumes "d_path os (pwd s) = Inr pc" and "length pc < PATH_MAX os"
    and "NUL \<notin> set A" and "namei os (pwd s) A = Inr a"
    and "d_path os a = Inr pa" and "length pa < PATH_MAX os" and "NUL \<notin> set pa"
    and "NUL \<notin> set B" and "namei os a B = Inr b"
    and "d_path os b = Inr pb" and "length pb < PATH_MAX os"
    and "namei os b pa = Inr a"
  shows "\<exists>s1 r1 s2 s3 r3.
           changeDirectory os s A = Inr (s1, r1) \<and> pwd s1 = a \<and>
           changeDirectory os s1 B = Inr (s2, [LString pa]) \<and> pwd s2 = b \<and>
           changeDirectory os s2 pa = Inr (s3, r3) \<and> pwd s3 = a"
proof -
  define s1 where "s1 = s\<lparr>calls := calls s @ [Getcwd (PATH_MAX os), Chdir (c_str A)],
                          buf := pc @ NUL # drop (length pc + 1) (buf s), pwd := a\<rparr>"
  define s2 where "s2 = s1\<lparr>calls := calls s1 @ [Getcwd (PATH_MAX os), Chdir (c_str B)],
                           buf := pa @ NUL # drop (length pa + 1) (buf s1), pwd := b\<rparr>"
  define s3 where "s3 = s2\<lparr>calls := calls s2 @ [Getcwd (PATH_MAX os), Chdir (c_str pa)],
                           buf := pb @ NUL # drop (length pb + 1) (buf s2), pwd := a\<rparr>"
  have 1: "changeDirectory os s A = Inr (s1, [LString (c_str pc)])"
    unfolding s1_def using assms(1,2,3,4)
    by (intro changeDirectory_ok) (simp_all add: c_str_id)
  have p1: "pwd s1 = a" by (simp add: s1_def)
  have 2: "changeDirectory os s1 B = Inr (s2, [LString (c_str pa)])"
    unfolding s2_def using assms(5,6,8,9) p1
    by (intro changeDirectory_ok) (simp_all add: c_str_id)
  have p2: "pwd s2 = b" by (simp add: s2_def)
  have 3: "changeDirectory os s2 pa = Inr (s3, [LString (c_str pb)])"
    unfolding s3_def using assms(7,10,11,12) p2
    by (intro changeDirectory_ok) (simp_all add: c_str_id)
  have p3: "pwd s3 = a" by (simp add: s3_def)
  from 1 2 3 p1 p2 p3 assms(7) show ?thesis
    by (auto simp: c_str_id)
qed

text \<open>
  An instance of C5: from the root to \<^verbatim>\<open>/tmp\<close>, on to the root, and back to
  \<^verbatim>\<open>/tmp\<close> by the returned value.
\<close>

theorem C5_witness:
  "d_path linux (pwd (boot Root)) = Inr ''/'' \<and> namei linux (pwd (boot Root)) ''/tmp'' = Inr Tmp \<and>
   d_path linux Tmp = Inr ''/tmp'' \<and> namei linux Tmp ''/'' = Inr Root \<and>
   namei linux Root ''/tmp'' = Inr Tmp \<and>
   (\<exists>s1 r1 s2 s3 r3.
      changeDirectory linux (boot Root) ''/tmp'' = Inr (s1, r1) \<and> pwd s1 = Tmp \<and>
      changeDirectory linux s1 ''/'' = Inr (s2, [LString ''/tmp'']) \<and> pwd s2 = Root \<and>
      changeDirectory linux s2 ''/tmp'' = Inr (s3, r3) \<and> pwd s3 = Tmp)"
proof -
  have h: "d_path linux (pwd (boot Root)) = Inr ''/''" "length ''/'' < PATH_MAX linux"
    "NUL \<notin> set ''/tmp''" "namei linux (pwd (boot Root)) ''/tmp'' = Inr Tmp"
    "d_path linux Tmp = Inr ''/tmp''" "length ''/tmp'' < PATH_MAX linux"
    "NUL \<notin> set ''/''" "namei linux Tmp ''/'' = Inr Root"
    "d_path linux Root = Inr ''/''" "namei linux Root ''/tmp'' = Inr Tmp"
    by (simp_all add: linux_simps boot_simps ex_namei_def NUL_def)
  from C5_round_trip [OF h(1,2,3,4,5,6,3,7,8,9,2,10)] h show ?thesis
    by simp
qed




text \<open>
  C7. What a call returns, and where it leaves the process, does not depend on
  anything an earlier call left behind. Whatever the static buffer, \<open>errno\<close> and
  the record of calls hold when the call starts, the caller observes what it would
  observe in a process that stands in the same directory and has never called the
  function. The state after any first call is one such state.
\<close>

theorem C7_no_state_between_calls:
  "visible (changeDirectory os s p) = visible (changeDirectory os (fresh os (pwd s)) p)"
  unfolding visible_changeDirectory pwd_fresh by (rule refl)

text \<open>
  C8. When the query fails, or the query succeeds and the change of directory
  fails, the call does not raise: it returns the failure triple. The system calls
  it has made are the query alone, or the query and one \<^verbatim>\<open>chdir\<close>; none is
  repeated.
\<close>

theorem C8_failures_returned:
  assumes "\<not> fst (getcwd os (PATH_MAX os) s) \<or>
           fst (chdir os (c_str p) (snd (getcwd os (PATH_MAX os) s))) \<noteq> 0"
  shows "\<exists>s' message code.
           changeDirectory os s p = Inr (s', [LNil, LString message, LInteger code]) \<and>
           (calls s' = calls s @ [Getcwd (PATH_MAX os)] \<or>
            calls s' = calls s @ [Getcwd (PATH_MAX os), Chdir (c_str p)])"
proof -
  obtain cwd s1 where g: "getcwd os (PATH_MAX os) s = (cwd, s1)"
    by (cases "getcwd os (PATH_MAX os) s")
  show ?thesis
  proof (cases cwd)
    case False
    with g have f: "getcwd os (PATH_MAX os) s = (False, s1)" by simp
    then have "s1 = s\<lparr>calls := calls s @ [Getcwd (PATH_MAX os)], errno := errno s1\<rparr>"
      by (rule getcwd_failure)
    then have "calls s1 = calls s @ [Getcwd (PATH_MAX os)]"
      by (cases s1) (cases s, simp)
    with f show ?thesis
      by (simp add: changeDirectory_query_fails)
  next
    case True
    with g obtain c where c: "d_path os (pwd s) = Inr c" "length c < PATH_MAX os"
      and s1: "s1 = s\<lparr>calls := calls s @ [Getcwd (PATH_MAX os)],
                       buf := c @ NUL # drop (length c + 1) (buf s)\<rparr>"
      by (auto elim: getcwd_True)
    from assms g True have nz: "fst (chdir os (c_str p) s1) \<noteq> 0" by simp
    show ?thesis
    proof (cases "namei os (pwd s) (c_str p)")
      case (Inl e)
      with c show ?thesis by (simp add: changeDirectory_err)
    next
      case (Inr d)
      with s1 have "fst (chdir os (c_str p) s1) = 0" by (simp add: chdir_def)
      with nz show ?thesis by simp
    qed
  qed
qed

text \<open>
  An instance of C8: \<^verbatim>\<open>/root\<close>, which the sample platform does not have.
\<close>

theorem C8_witness:
  "fst (chdir linux (c_str ''/root'') (snd (getcwd linux (PATH_MAX linux) (boot Root)))) = - 1 \<and>
   (\<exists>s' message code.
      changeDirectory linux (boot Root) ''/root'' =
        Inr (s', [LNil, LString message, LInteger code]) \<and>
      (calls s' = calls (boot Root) @ [Getcwd (PATH_MAX linux)] \<or>
       calls s' = calls (boot Root) @ [Getcwd (PATH_MAX linux), Chdir (c_str ''/root'')]))"
proof -
  have h: "fst (chdir linux (c_str ''/root'') (snd (getcwd linux (PATH_MAX linux) (boot Root)))) = - 1"
    by (simp add: getcwd_def chdir_def linux_def boot_def ex_namei_def c_str_def NUL_def
        deep15_path_neq name255_neq)
  then have "\<not> fst (getcwd linux (PATH_MAX linux) (boot Root)) \<or>
    fst (chdir linux (c_str ''/root'') (snd (getcwd linux (PATH_MAX linux) (boot Root)))) \<noteq> 0"
    by simp
  from C8_failures_returned [OF this] h show ?thesis
    by simp
qed

text \<open>
  C9 does not hold of the code. The source reads \<open>errno\<close> once for the message and
  once more for the code, with \<^verbatim>\<open>lua_pushstring\<close> in between, and does not keep the
  value of the failing call in a variable of its own. On the sample platform a
  process in the root asks for \<^verbatim>\<open>/root\<close>, which does not exist, so \<^verbatim>\<open>chdir\<close> fails
  with \<^verbatim>\<open>ENOENT\<close>, 2. While \<^verbatim>\<open>lua_pushstring\<close> copies the message for 2, the collector
  runs a finalizer that leaves 13 in \<open>errno\<close>. The caller receives the message of
  \<^verbatim>\<open>ENOENT\<close> with the code 13, whose own message is another: message and code do
  not come from one value of \<open>errno\<close>.
\<close>

theorem C9_errno_read_twice:
  "namei linux (pwd (boot Root)) ''/root'' = Inl 2 \<and>
   changeDirectory_gc finalizer_EACCES linux (boot Root) ''/root'' =
     Inr (\<lparr>pwd = Root, errno = 13, buf = ''/'' @ NUL # replicate 4094 NUL,
            calls = [Getcwd 4096, Chdir ''/root'']\<rparr>,
          [LNil, LString ''No such file or directory'', LInteger 13]) \<and>
   strerror linux 13 = ''Permission denied''"
  by (simp add: changeDirectory_gc_def chdir_lua_gc_def luaL_checkstring_def
      lua_pushstring_gc_def lua_pushstring_def lua_pushnil_def lua_pushinteger_def getcwd_def
      chdir_def c_str_def NUL_def linux_def boot_def ex_namei_def ex_strerror_def
      finalizer_EACCES_def deep15_path_neq name255_neq)

text \<open>
  C10. A previous path returned on success is shorter than \<^verbatim>\<open>PATH_MAX\<close>: with its
  terminator it fits the buffer. When the pathname of the working directory has
  \<^verbatim>\<open>PATH_MAX\<close> bytes or more, the call returns the failure triple of the query
  (\<^verbatim>\<open>ERANGE\<close>; \<^verbatim>\<open>EINVAL\<close> on a platform whose \<^verbatim>\<open>PATH_MAX\<close> is 0), makes no other
  call and leaves the working directory alone. No shortened path is returned.
\<close>

theorem C10_previous_path_fits:
  "(changeDirectory os s p = Inr (s', [LString previous]) \<longrightarrow> length previous < PATH_MAX os) \<and>
   (d_path os (pwd t) = Inr C \<and> PATH_MAX os \<le> length C \<longrightarrow>
      (\<exists>t'. changeDirectory os t q =
              Inr (t', [LNil, LString (strerror os (errno t')), LInteger (errno t')]) \<and>
            errno t' = (if PATH_MAX os = 0 then EINVAL else ERANGE) \<and>
            calls t' = calls t @ [Getcwd (PATH_MAX os)] \<and> pwd t' = pwd t))"
proof (intro conjI impI)
  assume ok: "changeDirectory os s p = Inr (s', [LString previous])"
  then have "visible (changeDirectory os s p) = Inr (pwd s', [LString previous])"
    by (simp add: visible_def)
  then have "\<exists>c. length c < PATH_MAX os \<and> previous = c_str c"
    by (auto simp: visible_changeDirectory not_le split: if_splits sum.splits)
  then obtain c where "length c < PATH_MAX os" and "previous = c_str c"
    by blast
  then show "length previous < PATH_MAX os"
    using length_c_str [of c] by simp
next
  assume "d_path os (pwd t) = Inr C \<and> PATH_MAX os \<le> length C"
  then have "getcwd os (PATH_MAX os) t =
             (False, t\<lparr>calls := calls t @ [Getcwd (PATH_MAX os)],
                       errno := (if PATH_MAX os = 0 then EINVAL else ERANGE)\<rparr>)"
    by (simp add: getcwd_too_long)
  then show "\<exists>t'. changeDirectory os t q =
              Inr (t', [LNil, LString (strerror os (errno t')), LInteger (errno t')]) \<and>
            errno t' = (if PATH_MAX os = 0 then EINVAL else ERANGE) \<and>
            calls t' = calls t @ [Getcwd (PATH_MAX os)] \<and> pwd t' = pwd t"
    by (simp add: changeDirectory_query_fails)
qed

text \<open>
  An instance of C10: a successful call from the root, and a call from the
  sixteenth directory of the chain, whose pathname has 4096 bytes.
\<close>

theorem C10_witness:
  "changeDirectory linux (boot Root) ''/tmp'' =
     Inr (\<lparr>pwd = Tmp, errno = 0, buf = ''/'' @ NUL # replicate 4094 NUL,
            calls = [Getcwd 4096, Chdir ''/tmp'']\<rparr>, [LString ''/'']) \<and>
   length ''/'' < PATH_MAX linux \<and>
   d_path linux (pwd (boot Deep16)) = Inr deep16_path \<and> PATH_MAX linux \<le> length deep16_path \<and>
   (\<exists>t'. changeDirectory linux (boot Deep16) ''/tmp'' =
           Inr (t', [LNil, LString (strerror linux (errno t')), LInteger (errno t')]) \<and>
         errno t' = ERANGE \<and> pwd t' = Deep16)"
proof -
  have ok: "changeDirectory linux (boot Root) ''/tmp'' =
     Inr (\<lparr>pwd = Tmp, errno = 0, buf = ''/'' @ NUL # replicate 4094 NUL,
            calls = [Getcwd 4096, Chdir ''/tmp'']\<rparr>, [LString ''/''])"
    by (simp add: changeDirectory_def chdir_lua_def luaL_checkstring_def lua_pushstring_def
        getcwd_def chdir_def c_str_def NUL_def linux_def boot_def ex_namei_def)
  have long: "d_path linux (pwd (boot Deep16)) = Inr deep16_path \<and>
              PATH_MAX linux \<le> length deep16_path"
    by (simp add: linux_def boot_def length_deep16)
  from C10_previous_path_fits
         [of linux "boot Root" "''/tmp''" _ "''/''" "boot Deep16" deep16_path "''/tmp''"]
       ok long
  show ?thesis
    by (auto simp: linux_simps boot_simps)
qed

end
